theory Spec2Isabelle
  imports Main "HOL-Library.Word"
begin

section \<open>Frames\<close>

text \<open>
  The \<open>Message\<close> struct of the server package. Go strings are byte sequences, so every
  string field is a \<open>string\<close> (one \<open>char\<close> per byte), and \<open>[]byte\<close> values are
  byte lists of the same type: the conversions \<open>string(b)\<close> and \<open>[]byte(s)\<close> copy the
  bytes. A \<open>map[string]string\<close> is a partial function; the nil map is the empty one.
  The client package declares the same struct without \<open>RequestedSubdomain\<close>; it never
  reads or sets that field, so one record serves both sides.
\<close>

record Message =
  Type :: string
  ID :: string
  Subdomain :: string
  RequestedSubdomain :: string
  Method :: string
  Path :: string
  Headers :: "string \<rightharpoonup> string"
  Body :: string
  Status :: int
  Error :: string

text \<open>The zero value \<open>Message{}\<close>, from which every composite literal starts.\<close>

definition Message0 :: Message where
  "Message0 = \<lparr>Type = [], ID = [], Subdomain = [], RequestedSubdomain = [], Method = [],
     Path = [], Headers = Map.empty, Body = [], Status = 0, Error = []\<rparr>"

section \<open>Channels\<close>

text \<open>
  A buffered Go channel of frames: the frames waiting in it, its capacity, and whether
  \<open>close\<close> has been called on it.
\<close>

record chan =
  buf :: "Message list"
  cap :: nat
  closed :: bool

definition make_chan :: "nat \<Rightarrow> chan" where
  "make_chan n = \<lparr>buf = [], cap = n, closed = False\<rparr>"

text \<open>
  A send either puts the frame into the buffer, or finds the buffer full (a plain send
  then blocks the goroutine, a send in a \<open>select\<close> with a \<open>default\<close> branch takes the
  default), or panics because the channel is closed. A receiver waiting on a channel of
  capacity at least one means the buffer is empty, so "room in the buffer" decides both.
\<close>

datatype sent = Sent chan | Full | SendOnClosed

definition chan_send :: "chan \<Rightarrow> Message \<Rightarrow> sent" where
  "chan_send c m =
     (if closed c then SendOnClosed
      else if length (buf c) < cap c then Sent (c\<lparr>buf := buf c @ [m]\<rparr>)
      else Full)"

section \<open>Server state\<close>

text \<open>
  \<open>Client\<close> is the server's per-session struct. The registry holds pointers to it and
  \<open>handleSubdomainRequest\<close> mutates it through such a pointer, so sessions live in a
  heap indexed by address; channels (outbound queues and response sinks) live in a second
  heap, and \<open>send\<close> is the address of the session's queue. \<open>conn\<close> identifies the
  WebSocket connection. A heap is the list of the objects allocated so far, an address
  is an index into it, and allocating appends, so that a new object never takes the
  address of an old one.
\<close>

definition load :: "'a list \<Rightarrow> nat \<Rightarrow> 'a option" where
  "load h a = (if a < length h then Some (h ! a) else None)"

record Client =
  conn :: nat
  subdomain :: string
  send :: nat

text \<open>
  Which goroutine calls a write method of a connection: the handler before it starts the
  writer (\<open>HandleWebSocket\<close>), the reader loop (\<open>readPump\<close> and the handlers it calls),
  or the writer loop (\<open>writePump\<close>).
\<close>

datatype task = Handshake | ReadPump | WritePump

datatype wsframe = JSONFrame Message | CloseFrame

datatype arg = S string | D int

text \<open>
  The \<open>Server\<close> struct (\<open>clients\<close>, \<open>pendingRequests\<close>, \<open>token\<close>, \<open>domain\<close>,
  \<open>port\<close>; the two mutexes make each registry or table operation one atomic step and
  are not fields here), together with the two heaps, the calls of
  the connections' write methods in order (connection, calling task, frame), the set of
  connections on which \<open>Close\<close> was called, and the \<open>log.Printf\<close> calls (format
  string and arguments).
\<close>

record Server =
  clients :: "string \<rightharpoonup> nat"
  pendingRequests :: "string \<rightharpoonup> nat"
  token :: string
  domain :: string
  port :: string
  heap_Client :: "Client list"
  heap_chan :: "chan list"
  conn_writes :: "(nat \<times> task \<times> wsframe) list"
  conn_closed :: "nat set"
  logs :: "(string \<times> arg list) list"

definition NewServer :: "string \<Rightarrow> string \<Rightarrow> string \<Rightarrow> Server" where
  "NewServer tok dmn prt =
     \<lparr>clients = Map.empty, pendingRequests = Map.empty, token = tok, domain = dmn,
      port = prt, heap_Client = [], heap_chan = [],
      conn_writes = [], conn_closed = {}, logs = []\<rparr>"

text \<open>
  A function of the server returns, or panics (the state is the one the deferred calls
  have left behind), or blocks its goroutine.
\<close>

datatype 'a outcome = Returned 'a | Panicked string 'a | Blocked 'a

definition log_Printf :: "string \<Rightarrow> arg list \<Rightarrow> Server \<Rightarrow> Server" where
  "log_Printf fmt args s = s\<lparr>logs := logs s @ [(fmt, args)]\<rparr>"

definition conn_write :: "nat \<Rightarrow> task \<Rightarrow> wsframe \<Rightarrow> Server \<Rightarrow> Server" where
  "conn_write c t f s = s\<lparr>conn_writes := conn_writes s @ [(c, t, f)]\<rparr>"

definition conn_Close :: "nat \<Rightarrow> Server \<Rightarrow> Server" where
  "conn_Close c s = s\<lparr>conn_closed := insert c (conn_closed s)\<rparr>"

section \<open>Subdomain registry\<close>

text \<open>
  \<open>generateSubdomain\<close>: four bytes from \<open>crypto/rand\<close>, given here as an argument,
  hex-encoded by \<open>hex.EncodeToString\<close> (two lowercase digits per byte).
\<close>

definition hexdigit :: "nat \<Rightarrow> char" where
  "hexdigit n = ''0123456789abcdef'' ! (n mod 16)"

definition hex_byte :: "8 word \<Rightarrow> string" where
  "hex_byte b = [hexdigit (unat b div 16), hexdigit (unat b mod 16)]"

type_synonym rand4 = "8 word \<times> 8 word \<times> 8 word \<times> 8 word"

definition generateSubdomain :: "rand4 \<Rightarrow> string" where
  "generateSubdomain bytes = (case bytes of (a, b, c, d) \<Rightarrow> concat (map hex_byte [a, b, c, d]))"

definition isSubdomainAvailable :: "Server \<Rightarrow> string \<Rightarrow> bool" where
  "isSubdomainAvailable s sub = (clients s sub = None)"

definition registerClient :: "string \<Rightarrow> nat \<Rightarrow> Server \<Rightarrow> Server" where
  "registerClient sub client s = s\<lparr>clients := (clients s)(sub \<mapsto> client)\<rparr>"

text \<open>
  \<open>unregisterClient\<close>: if the label is registered, \<open>close(client.send)\<close> on the
  registered session's queue, then delete the entry. Closing a closed channel panics;
  the deferred unlock runs and the entry stays.
\<close>

definition unregisterClient :: "string \<Rightarrow> Server \<Rightarrow> Server outcome" where
  "unregisterClient sub s =
     (case clients s sub of
        None \<Rightarrow> Returned s
      | Some client \<Rightarrow>
          (case load (heap_Client s) client of
             None \<Rightarrow> Panicked ''invalid memory address or nil pointer dereference'' s
           | Some c \<Rightarrow>
               (case load (heap_chan s) (send c) of
                  None \<Rightarrow> Panicked ''close of nil channel'' s
                | Some q \<Rightarrow>
                    if closed q then Panicked ''close of closed channel'' s
                    else Returned (s\<lparr>heap_chan := (heap_chan s)[send c := q\<lparr>closed := True\<rparr>],
                                     clients := (clients s)(sub := None)\<rparr>))))"

definition getClient :: "Server \<Rightarrow> string \<Rightarrow> nat option" where
  "getClient s sub = clients s sub"

section \<open>Control endpoint\<close>

text \<open>
  \<open>handleSubdomainRequest\<close>, called by the reader loop with the session's pointer.
  \<open>werr\<close> tells whether \<open>conn.WriteJSON\<close> returned an error; only the log line
  depends on it. The function is followed here from its first line to its return;
  \<open>isSubdomainAvailable\<close>, \<open>unregisterClient\<close> and \<open>registerClient\<close> each take the
  registry's lock on their own, so another goroutine can look the registry up between
  any two of them.
\<close>

definition assignMsg :: "string \<Rightarrow> string \<Rightarrow> Message" where
  "assignMsg label dmn =
     Message0\<lparr>Type := ''subdomain_assigned'', Subdomain := label @ ''.'' @ dmn\<rparr>"

definition errorMsg :: "string \<Rightarrow> Message" where
  "errorMsg label =
     Message0\<lparr>Type := ''error'',
       Error := ''Subdomain '' @ [CHR 0x27] @ label @ [CHR 0x27] @ '' is not available''\<rparr>"

definition handleSubdomainRequest :: "nat \<Rightarrow> Message \<Rightarrow> bool \<Rightarrow> Server \<Rightarrow> Server outcome" where
  "handleSubdomainRequest client msg werr s =
     (case load (heap_Client s) client of
        None \<Rightarrow> Panicked ''invalid memory address or nil pointer dereference'' s
      | Some c \<Rightarrow>
          if isSubdomainAvailable s (RequestedSubdomain msg) then
            (case unregisterClient (subdomain c) s of
               Returned s1 \<Rightarrow>
                 let s2 = s1\<lparr>heap_Client := (heap_Client s1)
                                [client := c\<lparr>subdomain := RequestedSubdomain msg\<rparr>]\<rparr>;
                     s3 = registerClient (RequestedSubdomain msg) client s2;
                     s4 = conn_write (conn c) ReadPump
                            (JSONFrame (assignMsg (RequestedSubdomain msg) (domain s))) s3
                 in Returned
                      (if werr then log_Printf ''Failed to send subdomain assignment: %v'' [] s4
                       else log_Printf ''Client reassigned to requested subdomain: %s.%s''
                              [S (RequestedSubdomain msg), S (domain s)] s4)
             | Panicked e s1 \<Rightarrow> Panicked e s1
             | Blocked s1 \<Rightarrow> Blocked s1)
          else
            Returned (conn_write (conn c) ReadPump
                        (JSONFrame (errorMsg (RequestedSubdomain msg))) s))"

text \<open>
  What a handler has written to its \<open>http.ResponseWriter\<close>: the status code given to
  \<open>WriteHeader\<close>, for each header name the value given to \<open>w.Header().Set\<close>, and the
  body bytes given to \<open>Write\<close>. \<open>http.Error\<close> sets two headers, writes the status and
  the text followed by a newline.
\<close>

record response =
  code :: int
  header :: "string \<rightharpoonup> string"
  written :: string

definition http_Error :: "string \<Rightarrow> int \<Rightarrow> response" where
  "http_Error txt c =
     \<lparr>code = c,
      header = [''Content-Type'' \<mapsto> ''text/plain; charset=utf-8'',
                ''X-Content-Type-Options'' \<mapsto> ''nosniff''],
      written = txt @ [CHR 0x0A]\<rparr>"

text \<open>
  \<open>HandleWebSocket\<close> up to the point where it starts the two loops. Its inputs are the
  request's \<open>Authorization\<close> header, whether the upgrade succeeded, the four random
  bytes, and whether writing the first frame failed. The connection that the upgrade
  returns is identified by the address of the session built around it. The handler ends by
  refusing the request, by failing to upgrade, by failing to send the assignment (the
  deferred \<open>unregisterClient\<close> then runs), or it goes on serving the session; the label
  kept is the value of the local variable \<open>subdomain\<close> that the deferred call was given.
\<close>

datatype opened =
    Refused response Server
  | UpgradeFailed Server
  | Ended "Server outcome"
  | Serving nat string Server

definition HandleWebSocket_open :: "string \<Rightarrow> bool \<Rightarrow> rand4 \<Rightarrow> bool \<Rightarrow> Server \<Rightarrow> opened" where
  "HandleWebSocket_open authorization upgraded rnd werr s =
     (if authorization \<noteq> ''Bearer '' @ token s then
        Refused (http_Error ''Unauthorized'' 401) s
      else if \<not> upgraded then
        UpgradeFailed (log_Printf ''WebSocket upgrade failed: %v'' [] s)
      else
        let label = generateSubdomain rnd;
            a = length (heap_Client s);
            ch = length (heap_chan s);
            s1 = s\<lparr>heap_chan := heap_chan s @ [make_chan 256],
                   heap_Client := heap_Client s @ [\<lparr>conn = a, subdomain = label, send = ch\<rparr>]\<rparr>;
            s2 = registerClient label a s1;
            s3 = conn_write a Handshake (JSONFrame (assignMsg label (domain s))) s2
        in if werr then
             Ended (unregisterClient label
               (log_Printf ''Failed to send subdomain assignment: %v'' [] s3))
           else
             Serving a label
               (log_Printf ''Client connected with subdomain: %s.%s''
                  [S label, S (domain s)] s3))"

section \<open>Pending-request table\<close>

text \<open>
  \<open>handleHTTPResponse\<close>: look the sink up under the read lock, then a plain send
  \<open>ch <- msg\<close> outside the lock.
\<close>

definition handleHTTPResponse :: "Message \<Rightarrow> Server \<Rightarrow> Server outcome" where
  "handleHTTPResponse msg s =
     (case pendingRequests s (ID msg) of
        Some ch \<Rightarrow>
          (case load (heap_chan s) ch of
             None \<Rightarrow> Blocked s
           | Some q \<Rightarrow>
               (case chan_send q msg of
                  Sent q' \<Rightarrow> Returned (s\<lparr>heap_chan := (heap_chan s)[ch := q']\<rparr>)
                | Full \<Rightarrow> Blocked s
                | SendOnClosed \<Rightarrow> Panicked ''send on closed channel'' s))
      | None \<Rightarrow> Returned (log_Printf ''No pending request for ID %s'' [S (ID msg)] s))"

section \<open>Reader and writer loops\<close>

text \<open>
  \<open>readPump\<close> on the frames that \<open>ReadJSON\<close> delivers before it fails; each frame
  comes with the flag for the write its handler may do. When the read fails the loop
  breaks and the deferred \<open>client.conn.Close()\<close> runs, as it does when a handler
  panics. A handler that blocks stops the loop where it is.
\<close>

definition dispatch :: "nat \<Rightarrow> Message \<Rightarrow> bool \<Rightarrow> Server \<Rightarrow> Server outcome" where
  "dispatch client msg werr s =
     (if Type msg = ''http_response'' then handleHTTPResponse msg s
      else if Type msg = ''subdomain_request'' then handleSubdomainRequest client msg werr s
      else Returned s)"

fun readPump_loop :: "nat \<Rightarrow> nat \<Rightarrow> (Message \<times> bool) list \<Rightarrow> bool \<Rightarrow> Server \<Rightarrow> Server outcome" where
  "readPump_loop client cn [] unexpected s =
     Returned (conn_Close cn
       (if unexpected then log_Printf ''WebSocket error: %v'' [] s else s))"
| "readPump_loop client cn ((msg, werr) # rest) unexpected s =
     (case dispatch client msg werr s of
        Returned s' \<Rightarrow> readPump_loop client cn rest unexpected s'
      | Panicked e s' \<Rightarrow> Panicked e (conn_Close cn s')
      | Blocked s' \<Rightarrow> Blocked s')"

definition readPump :: "nat \<Rightarrow> (Message \<times> bool) list \<Rightarrow> bool \<Rightarrow> Server \<Rightarrow> Server outcome" where
  "readPump client inbound unexpected s =
     (case load (heap_Client s) client of
        None \<Rightarrow> Panicked ''invalid memory address or nil pointer dereference'' s
      | Some c \<Rightarrow> readPump_loop client (conn c) inbound unexpected s)"

text \<open>
  The end of \<open>HandleWebSocket\<close>: when \<open>readPump\<close> has returned or panicked, the
  deferred \<open>s.unregisterClient(subdomain)\<close> runs with the label that was generated
  when the session connected.
\<close>

definition HandleWebSocket_return :: "string \<Rightarrow> Server outcome \<Rightarrow> Server outcome" where
  "HandleWebSocket_return label r =
     (case r of
        Returned s \<Rightarrow> unregisterClient label s
      | Panicked e s \<Rightarrow>
          (case unregisterClient label s of
             Returned s' \<Rightarrow> Panicked e s'
           | Panicked e' s' \<Rightarrow> Panicked e' s'
           | Blocked s' \<Rightarrow> Blocked s')
      | Blocked s \<Rightarrow> Blocked s)"

text \<open>
  The whole handler for one session whose reader runs without another goroutine in
  between. The writer started by \<open>go s.writePump(client)\<close> runs beside it.
\<close>

definition HandleWebSocket ::
  "string \<Rightarrow> bool \<Rightarrow> rand4 \<Rightarrow> bool \<Rightarrow> (Message \<times> bool) list \<Rightarrow> bool \<Rightarrow> Server \<Rightarrow> opened" where
  "HandleWebSocket authorization upgraded rnd werr inbound unexpected s =
     (case HandleWebSocket_open authorization upgraded rnd werr s of
        Serving client label s1 \<Rightarrow>
          Ended (HandleWebSocket_return label (readPump client inbound unexpected s1))
      | r \<Rightarrow> r)"

text \<open>
  One turn of the loop of \<open>writePump\<close>: receive from \<open>client.send\<close>; on a closed and
  drained queue write the close frame and return; otherwise write the frame and go on,
  or return when the write fails. Each return runs the deferred \<open>client.conn.Close()\<close>.
  With an open, empty queue the writer waits.
\<close>

datatype pump = Next Server | Stopped Server | Idle

definition writePump_iter :: "nat \<Rightarrow> bool \<Rightarrow> Server \<Rightarrow> pump" where
  "writePump_iter client werr s =
     (case load (heap_Client s) client of
        None \<Rightarrow> Stopped s
      | Some c \<Rightarrow>
          (case load (heap_chan s) (send c) of
             None \<Rightarrow> Idle
           | Some q \<Rightarrow>
               (case buf q of
                  msg # rest \<Rightarrow>
                    let s1 = s\<lparr>heap_chan := (heap_chan s)[send c := q\<lparr>buf := rest\<rparr>]\<rparr>;
                        s2 = conn_write (conn c) WritePump (JSONFrame msg) s1
                    in if werr then
                         Stopped (conn_Close (conn c)
                           (log_Printf ''Failed to write message: %v'' [] s2))
                       else Next s2
                | [] \<Rightarrow>
                    if closed q then
                      Stopped (conn_Close (conn c) (conn_write (conn c) WritePump CloseFrame s))
                    else Idle)))"

section \<open>Public HTTP adapter\<close>

text \<open>
  The parts of the \<open>http.Request\<close> that \<open>HandleHTTPRequest\<close> reads: \<open>r.Host\<close>,
  \<open>r.Method\<close>, \<open>r.URL.Path\<close>, \<open>r.Header\<close> and the result of \<open>io.ReadAll(r.Body)\<close>
  (\<open>None\<close> when it returns an error). \<open>host_label\<close> is \<open>strings.Split(host, ".")[0]\<close>,
  the part of the host before its first dot.
\<close>

record request =
  req_Host :: string
  req_Method :: string
  req_URL_Path :: string
  req_Header :: "string \<rightharpoonup> string list"
  req_Body :: "string option"

definition flatten :: "(string \<rightharpoonup> string list) \<Rightarrow> (string \<rightharpoonup> string)" where
  "flatten h = (\<lambda>name. case h name of Some (v # _) \<Rightarrow> Some v | _ \<Rightarrow> None)"

definition host_label :: "string \<Rightarrow> string" where
  "host_label host = takeWhile (\<lambda>c. c \<noteq> CHR ''.'') host"

definition remove_pending :: "string \<Rightarrow> Server \<Rightarrow> Server" where
  "remove_pending requestID s = s\<lparr>pendingRequests := (pendingRequests s)(requestID := None)\<rparr>"

text \<open>
  The handler suspends once, at the inner \<open>select\<close>, and other goroutines run while it
  waits; so it is two steps. \<open>HandleHTTPRequest_begin\<close> runs from the start to the
  outer \<open>select\<close>: it answers at once, or panics (\<open>net/http\<close> recovers and no response
  is written), or the frame is in the queue and the handler waits with its request id
  and sink. The deferred function that deletes the table entry runs on every way out
  after the insertion.
\<close>

datatype adapter =
    Responded response Server
  | Aborted string Server
  | Awaiting string nat Server
  | NotReady Server

definition HandleHTTPRequest_begin :: "request \<Rightarrow> rand4 \<Rightarrow> Server \<Rightarrow> adapter" where
  "HandleHTTPRequest_begin r rnd s =
     (if CHR ''.'' \<notin> set (req_Host r) then
        Responded (http_Error ''Invalid subdomain'' 400) s
      else
        let label = host_label (req_Host r) in
        (case getClient s label of
           None \<Rightarrow> Responded (http_Error ''Tunnel not found'' 404) s
         | Some client \<Rightarrow>
             (case req_Body r of
                None \<Rightarrow> Responded (http_Error ''Failed to read request body'' 500) s
              | Some body \<Rightarrow>
                  (let headers = flatten (req_Header r);
                       requestID = generateSubdomain rnd;
                       responseChan = length (heap_chan s);
                       s1 = s\<lparr>heap_chan := heap_chan s @ [make_chan 1],
                              pendingRequests := (pendingRequests s)(requestID \<mapsto> responseChan)\<rparr>;
                       msg = Message0\<lparr>Type := ''http_request'', ID := requestID,
                               Method := req_Method r, Path := req_URL_Path r,
                               Headers := headers, Body := body\<rparr>
                   in (case load (heap_Client s1) client of
                         None \<Rightarrow>
                           Aborted ''invalid memory address or nil pointer dereference''
                             (remove_pending requestID s1)
                       | Some c \<Rightarrow>
                           (case load (heap_chan s1) (send c) of
                              None \<Rightarrow>
                                Responded (http_Error ''Tunnel is busy'' 503)
                                  (remove_pending requestID s1)
                            | Some q \<Rightarrow>
                                (case chan_send q msg of
                                   Sent q' \<Rightarrow>
                                     Awaiting requestID responseChan
                                       (s1\<lparr>heap_chan := (heap_chan s1)[send c := q']\<rparr>)
                                 | Full \<Rightarrow>
                                     Responded (http_Error ''Tunnel is busy'' 503)
                                       (remove_pending requestID s1)
                                 | SendOnClosed \<Rightarrow>
                                     Aborted ''send on closed channel''
                                       (remove_pending requestID s1))))))))"

text \<open>
  \<open>HandleHTTPRequest_await\<close> is the inner \<open>select\<close> and the return: which of the three
  cases fires is the scheduler's choice among the ready ones. The sink case is ready when
  the sink holds a frame (or is closed, which yields the zero frame); the handler then
  sets each header of the frame and calls \<open>w.WriteHeader(resp.Status)\<close> and
  \<open>w.Write\<close> with the body. \<open>WriteHeader\<close> of \<open>net/http\<close> panics on a status code
  below 100 or above 999: the handler then ends in that panic, \<open>Write\<close> is not
  called and no status or body goes out; the deferred function still runs.
\<close>

datatype wakeup = SinkReady | TimerFired | ContextDone

definition copy_response :: "Message \<Rightarrow> response" where
  "copy_response resp = \<lparr>code = Status resp, header = Map.empty ++ Headers resp, written = Body resp\<rparr>"

definition write_response :: "Message \<Rightarrow> string \<Rightarrow> Server \<Rightarrow> adapter" where
  "write_response resp requestID s =
     (if Status resp < 100 \<or> 999 < Status resp then
        Aborted ''invalid WriteHeader code'' (remove_pending requestID s)
      else Responded (copy_response resp) (remove_pending requestID s))"

definition HandleHTTPRequest_await :: "string \<Rightarrow> nat \<Rightarrow> wakeup \<Rightarrow> Server \<Rightarrow> adapter" where
  "HandleHTTPRequest_await requestID responseChan ev s =
     (case ev of
        SinkReady \<Rightarrow>
          (case load (heap_chan s) responseChan of
             None \<Rightarrow> NotReady s
           | Some q \<Rightarrow>
               (case buf q of
                  resp # rest \<Rightarrow>
                    write_response resp requestID
                      (s\<lparr>heap_chan := (heap_chan s)[responseChan := q\<lparr>buf := rest\<rparr>]\<rparr>)
                | [] \<Rightarrow>
                    if closed q then write_response Message0 requestID s
                    else NotReady s))
      | TimerFired \<Rightarrow>
          Responded (http_Error ''Client response timeout'' 504) (remove_pending requestID s)
      | ContextDone \<Rightarrow>
          Responded (http_Error ''Request cancelled'' 408) (remove_pending requestID s))"

section \<open>Client: local forwarder\<close>

text \<open>
  Of the client's \<open>Client\<close> struct the forwarder reads \<open>localPort\<close> and writes to
  \<open>conn\<close> under \<open>writeMu\<close>; \<open>sent\<close> lists the frames given to \<open>c.conn.WriteJSON\<close>,
  in order, and \<open>client_logs\<close> the \<open>log.Printf\<close> calls.
\<close>

record client_Client =
  localPort :: int
  sent :: "Message list"
  client_logs :: "(string \<times> arg list) list"

text \<open>
  What the local HTTP exchange of \<open>forwardRequest\<close> comes to. The request it builds
  (the URL of the local port followed by the frame's path, the frame's method and body, its headers
  except \<open>Host\<close>) goes through \<open>net/http\<close>: \<open>http.NewRequest\<close> fails with an error
  text, or \<open>client.Do\<close> fails, or the response arrives (status, headers) and
  \<open>io.ReadAll\<close> of its body fails, or the body is read.
\<close>

datatype local_http =
    NewRequestError string
  | DoError string
  | ReadAllError int "string \<rightharpoonup> string list" string
  | Replied int "string \<rightharpoonup> string list" string

definition error_body :: "string \<Rightarrow> string" where
  "error_body errorText = ''{'' @ [CHR 0x22] @ ''error'' @ [CHR 0x22] @ '': '' @ [CHR 0x22] @
                            errorText @ [CHR 0x22] @ ''}''"

definition sendErrorResponse :: "string \<Rightarrow> string \<Rightarrow> bool \<Rightarrow> client_Client \<Rightarrow> client_Client" where
  "sendErrorResponse requestID errorText werr c =
     (let response = Message0\<lparr>Type := ''http_response'', ID := requestID, Status := 500,
                       Headers := [''Content-Type'' \<mapsto> ''application/json''],
                       Body := error_body errorText\<rparr>;
          c1 = c\<lparr>sent := sent c @ [response]\<rparr>;
          c2 = (if werr then
                  c1\<lparr>client_logs := client_logs c1 @ [(''Failed to send error response: %v'', [])]\<rparr>
                else c1)
      in c2\<lparr>client_logs := client_logs c2 @
              [([CHR 0xE2, CHR 0x9D, CHR 0x8C] @ '' Request %s failed: %s'',
                [S requestID, S errorText])]\<rparr>)"

definition forwardRequest :: "Message \<Rightarrow> local_http \<Rightarrow> bool \<Rightarrow> client_Client \<Rightarrow> client_Client" where
  "forwardRequest msg local werr c =
     (case local of
        NewRequestError e \<Rightarrow>
          sendErrorResponse (ID msg) (''Failed to create request: '' @ e) werr c
      | DoError e \<Rightarrow>
          sendErrorResponse (ID msg) (''Request failed: '' @ e) werr c
      | ReadAllError st hdr e \<Rightarrow>
          sendErrorResponse (ID msg) (''Failed to read response: '' @ e) werr c
      | Replied st hdr respBody \<Rightarrow>
          let response = Message0\<lparr>Type := ''http_response'', ID := ID msg, Status := st,
                            Headers := flatten hdr, Body := respBody\<rparr>;
              c1 = c\<lparr>sent := sent c @ [response]\<rparr>;
              c2 = (if werr then
                      c1\<lparr>client_logs := client_logs c1 @ [(''Failed to send response: %v'', [])]\<rparr>
                    else c1)
          in c2\<lparr>client_logs := client_logs c2 @
                  [([CHR 0xE2, CHR 0x9C, CHR 0x85] @ '' %s %s -> %d'',
                    [S (Method msg), S (Path msg), D st])]\<rparr>)"

section \<open>Frames on the wire\<close>

text \<open>
  \<open>WriteJSON\<close> and \<open>ReadJSON\<close> carry a frame as JSON text. Go's \<open>encoding/json\<close>
  walks a string with \<open>utf8.DecodeRuneInString\<close>: a well-formed rune is written as it
  is or as an escape that decodes to the same bytes; a byte that starts no well-formed
  rune is written as the escape of U+FFFD, which decodes to the three bytes EF BF BD.

  \<open>DecodeRuneInString\<close> gives the size of the rune at the head of a non-empty string,
  or \<open>None\<close> where Go returns \<open>(RuneError, 1)\<close>; \<open>lead\<close> is Go's table of lead bytes:
  the size of the rune and the range accepted for its second byte.
\<close>

definition in_range :: "nat \<Rightarrow> nat \<Rightarrow> char \<Rightarrow> bool" where
  "in_range lo hi c = (lo \<le> of_char c \<and> of_char c \<le> hi)"

definition lead :: "char \<Rightarrow> (nat \<times> nat \<times> nat) option" where
  "lead c =
     (let x = of_char c :: nat in
      if 0xC2 \<le> x \<and> x \<le> 0xDF then Some (2, 0x80, 0xBF)
      else if x = 0xE0 then Some (3, 0xA0, 0xBF)
      else if 0xE1 \<le> x \<and> x \<le> 0xEC then Some (3, 0x80, 0xBF)
      else if x = 0xED then Some (3, 0x80, 0x9F)
      else if 0xEE \<le> x \<and> x \<le> 0xEF then Some (3, 0x80, 0xBF)
      else if x = 0xF0 then Some (4, 0x90, 0xBF)
      else if 0xF1 \<le> x \<and> x \<le> 0xF3 then Some (4, 0x80, 0xBF)
      else if x = 0xF4 then Some (4, 0x80, 0x8F)
      else None)"

definition DecodeRuneInString :: "string \<Rightarrow> nat option" where
  "DecodeRuneInString s =
     (case s of
        [] \<Rightarrow> None
      | s0 # rest \<Rightarrow>
          if (of_char s0 :: nat) < 0x80 then Some 1
          else
            (case lead s0 of
               None \<Rightarrow> None
             | Some (sz, lo, hi) \<Rightarrow>
                 if length s < sz then None
                 else if \<not> in_range lo hi (s ! 1) then None
                 else if sz \<le> 2 then Some 2
                 else if \<not> in_range 0x80 0xBF (s ! 2) then None
                 else if sz \<le> 3 then Some 3
                 else if \<not> in_range 0x80 0xBF (s ! 3) then None
                 else Some 4))"

text \<open>
  \<open>json_text s\<close> is the string that \<open>ReadJSON\<close> returns for a string field that
  \<open>WriteJSON\<close> was given as \<open>s\<close>; \<open>valid_utf8\<close> is \<open>utf8.ValidString\<close>.
\<close>

fun json_text :: "string \<Rightarrow> string" where
  "json_text [] = []"
| "json_text (b # s) =
     (case DecodeRuneInString (b # s) of
        None \<Rightarrow> [CHR 0xEF, CHR 0xBF, CHR 0xBD] @ json_text s
      | Some n \<Rightarrow> b # take (n - 1) s @ json_text (drop (n - 1) s))"

fun valid_utf8 :: "string \<Rightarrow> bool" where
  "valid_utf8 [] = True"
| "valid_utf8 (b # s) =
     (case DecodeRuneInString (b # s) of
        None \<Rightarrow> False
      | Some n \<Rightarrow> valid_utf8 (drop (n - 1) s))"

text \<open>
  The frame that one side reads for the frame the other side wrote. Header names are
  HTTP field names and stay as they are.
\<close>

definition ReadJSON_of :: "Message \<Rightarrow> Message" where
  "ReadJSON_of m =
     \<lparr>Type = json_text (Type m), ID = json_text (ID m), Subdomain = json_text (Subdomain m),
      RequestedSubdomain = json_text (RequestedSubdomain m), Method = json_text (Method m),
      Path = json_text (Path m), Headers = map_option json_text \<circ> Headers m,
      Body = json_text (Body m), Status = Status m, Error = json_text (Error m)\<rparr>"

text \<open>
  A JSON string ends at its first quote that no backslash escapes. \<open>json_string_end\<close>
  reads the text after the opening quote of a string and gives the text after its closing
  quote, or nothing when the string does not end or is ill-formed: a backslash must be
  followed by one of the escape letters of JSON, \<open>u\<close> by four hex digits, and no
  control character may stand in a string. \<open>json_error_object\<close> tells whether a body
  is the JSON object that \<open>sendErrorResponse\<close> means to write: the member \<open>error\<close>
  with one string as its value, and nothing else.
\<close>

definition hex_char :: "char \<Rightarrow> bool" where
  "hex_char c = (c \<in> set ''0123456789abcdefABCDEF'')"

fun json_string_end :: "string \<Rightarrow> string option" where
  "json_string_end [] = None"
| "json_string_end (c # s) =
     (if c = CHR 0x22 then Some s
      else if c = CHR 0x5C then
        (case s of
           [] \<Rightarrow> None
         | e # s' \<Rightarrow>
             if e = CHR ''u'' then
               (if 4 \<le> length s' \<and> list_all hex_char (take 4 s')
                then json_string_end (drop 4 s') else None)
             else if e \<in> set ([CHR 0x22, CHR 0x5C] @ ''/bfnrt'') then json_string_end s'
             else None)
      else if (of_char c :: nat) < 0x20 then None
      else json_string_end s)"

definition error_prefix :: string where
  "error_prefix = ''{'' @ [CHR 0x22] @ ''error'' @ [CHR 0x22] @ '': '' @ [CHR 0x22]"

definition json_error_object :: "string \<Rightarrow> bool" where
  "json_error_object body =
     (take (length error_prefix) body = error_prefix \<and>
      json_string_end (drop (length error_prefix) body) = Some ''}'')"

section \<open>Sessions in their registered state, and a sample run\<close>

text \<open>
  A session is live when the registry maps its current label to it and its outbound
  queue is open: the state in which \<open>HandleWebSocket\<close> leaves a session it serves.
\<close>

definition live :: "Server \<Rightarrow> nat \<Rightarrow> bool" where
  "live s client =
     (case load (heap_Client s) client of
        None \<Rightarrow> False
      | Some c \<Rightarrow>
          clients s (subdomain c) = Some client \<and>
          (case load (heap_chan s) (send c) of None \<Rightarrow> False | Some q \<Rightarrow> \<not> closed q))"

fun state_of :: "Server outcome \<Rightarrow> Server" where
  "state_of (Returned s) = s"
| "state_of (Panicked e s) = s"
| "state_of (Blocked s) = s"

fun serving :: "opened \<Rightarrow> Server" where
  "serving (Serving client label s) = s"
| "serving (Refused r s) = s"
| "serving (UpgradeFailed s) = s"
| "serving (Ended r) = state_of r"

text \<open>
  A server for \<open>example.com\<close>, one client connected to it with the random bytes
  ab 12 cd 34, and the frame by which a client asks for a label.
\<close>

definition demo_server :: Server where
  "demo_server = NewServer ''secret'' ''example.com'' ''9090''"

definition demo_connected :: Server where
  "demo_connected =
     serving (HandleWebSocket_open ''Bearer secret'' True (0xab, 0x12, 0xcd, 0x34) False
                demo_server)"

definition subdomain_request :: "string \<Rightarrow> Message" where
  "subdomain_request label =
     Message0\<lparr>Type := ''subdomain_request'', RequestedSubdomain := label\<rparr>"

definition demo_renamed :: Server where
  "demo_renamed =
     state_of (handleSubdomainRequest 0 (subdomain_request ''myapp'') False demo_connected)"

text \<open>
  A public GET for a host, with no headers and an empty body; the state in which its
  adapter waits after the request for the first label was enqueued with the random bytes
  de ad be ef, and the frame enqueued; a client forwarding to port 3000; the frame the
  server reads when that client's local server has answered 200 with a given body; and
  the state after the reader has delivered such a frame with the body \<open>hi\<close>.
\<close>

fun adapter_state :: "adapter \<Rightarrow> Server" where
  "adapter_state (Responded resp s) = s"
| "adapter_state (Aborted e s) = s"
| "adapter_state (Awaiting requestID responseChan s) = s"
| "adapter_state (NotReady s) = s"

fun responded :: "adapter \<Rightarrow> response option" where
  "responded (Responded resp s) = Some resp"
| "responded (Aborted e s) = None"
| "responded (Awaiting requestID responseChan s) = None"
| "responded (NotReady s) = None"

definition demo_request :: "string \<Rightarrow> request" where
  "demo_request host =
     \<lparr>req_Host = host, req_Method = ''GET'', req_URL_Path = ''/'', req_Header = Map.empty,
      req_Body = Some []\<rparr>"

definition demo_waiting :: Server where
  "demo_waiting =
     adapter_state (HandleHTTPRequest_begin (demo_request ''ab12cd34.example.com'')
                      (0xde, 0xad, 0xbe, 0xef) demo_connected)"

definition demo_frame :: Message where
  "demo_frame = Message0\<lparr>Type := ''http_request'', ID := ''deadbeef'', Method := ''GET'',
                   Path := ''/'', Headers := Map.empty, Body := []\<rparr>"

definition demo_client :: client_Client where
  "demo_client = \<lparr>localPort = 3000, sent = [], client_logs = []\<rparr>"

definition demo_reply :: "string \<Rightarrow> Message" where
  "demo_reply respBody =
     ReadJSON_of (last (sent (forwardRequest
        (ReadJSON_of demo_frame) (Replied 200 Map.empty respBody) False demo_client)))"

text \<open>
  The first \<open>n\<close> of a series of public requests for the first label, each with random
  bytes of its own, all begun before the writer takes a frame from the queue.
\<close>

fun flood :: "nat \<Rightarrow> Server \<Rightarrow> Server" where
  "flood 0 s = s"
| "flood (Suc n) s =
     adapter_state (HandleHTTPRequest_begin (demo_request ''ab12cd34.example.com'')
                      (0, 0, of_nat (n div 256), of_nat (n mod 256)) (flood n s))"

definition demo_delivered :: Server where
  "demo_delivered = state_of (handleHTTPResponse (demo_reply ''hi'') demo_waiting)"

text \<open>
  The session after 256 requests that the writer has not taken, renamed to \<open>myapp\<close>;
  the frame a client sends when it answers without a status; and the error text of
  \<open>client.Do\<close> when nothing listens on the local port.
\<close>

definition demo_flooded_renamed :: Server where
  "demo_flooded_renamed =
     state_of (handleSubdomainRequest 0 (subdomain_request ''myapp'') False
                 (flood 256 demo_connected))"

definition demo_reply_no_status :: Message where
  "demo_reply_no_status = Message0\<lparr>Type := ''http_response'', ID := ''deadbeef''\<rparr>"

definition connection_refused :: string where
  "connection_refused =
     ''Get '' @ [CHR 0x22] @ ''http://localhost:3000/'' @ [CHR 0x22] @
     '': dial tcp 127.0.0.1:3000: connect: connection refused''"

section \<open>Facts about the sample run\<close>

lemma generate_ab12cd34: "generateSubdomain (0xab, 0x12, 0xcd, 0x34) = ''ab12cd34''"
  by (simp add: generateSubdomain_def hex_byte_def hexdigit_def)

lemma generate_deadbeef: "generateSubdomain (0xde, 0xad, 0xbe, 0xef) = ''deadbeef''"
  by (simp add: generateSubdomain_def hex_byte_def hexdigit_def)

lemma demo_open:
  "HandleWebSocket_open ''Bearer secret'' True (0xab, 0x12, 0xcd, 0x34) False demo_server =
     Serving 0 ''ab12cd34'' demo_connected"
  by (simp add: demo_connected_def HandleWebSocket_open_def demo_server_def NewServer_def
      generate_ab12cd34 Let_def)

lemma demo_connected_fields:
  "clients demo_connected = [''ab12cd34'' \<mapsto> 0]"
  "heap_Client demo_connected = [\<lparr>conn = 0, subdomain = ''ab12cd34'', send = 0\<rparr>]"
  "heap_chan demo_connected = [make_chan 256]"
  "pendingRequests demo_connected = Map.empty"
  "domain demo_connected = ''example.com''"
  "conn_writes demo_connected =
     [(0, Handshake, JSONFrame (assignMsg ''ab12cd34'' ''example.com''))]"
  "conn_closed demo_connected = {}"
  by (simp_all add: demo_connected_def HandleWebSocket_open_def demo_server_def NewServer_def
      generate_ab12cd34 Let_def registerClient_def conn_write_def log_Printf_def)

lemma demo_connected_live: "live demo_connected 0"
  by (simp add: live_def demo_connected_fields load_def make_chan_def)

lemma demo_rename:
  "handleSubdomainRequest 0 (subdomain_request ''myapp'') False demo_connected =
     Returned demo_renamed"
  by (simp add: demo_renamed_def handleSubdomainRequest_def demo_connected_fields load_def
      isSubdomainAvailable_def subdomain_request_def Message0_def unregisterClient_def
      make_chan_def)

lemma demo_renamed_fields:
  "clients demo_renamed = [''myapp'' \<mapsto> 0]"
  "heap_Client demo_renamed = [\<lparr>conn = 0, subdomain = ''myapp'', send = 0\<rparr>]"
  "heap_chan demo_renamed = [\<lparr>buf = [], cap = 256, closed = True\<rparr>]"
  "pendingRequests demo_renamed = Map.empty"
  "domain demo_renamed = ''example.com''"
  "conn_writes demo_renamed =
     [(0, Handshake, JSONFrame (assignMsg ''ab12cd34'' ''example.com'')),
      (0, ReadPump, JSONFrame (assignMsg ''myapp'' ''example.com''))]"
  "conn_closed demo_renamed = {}"
  by (simp_all add: demo_renamed_def handleSubdomainRequest_def demo_connected_fields load_def
      isSubdomainAvailable_def subdomain_request_def Message0_def unregisterClient_def
      make_chan_def Let_def registerClient_def conn_write_def log_Printf_def fun_upd_twist)

lemma demo_hosts:
  "host_label ''ab12cd34.example.com'' = ''ab12cd34''"
  "host_label ''myapp.example.com'' = ''myapp''"
  by (simp_all add: host_label_def)

lemma demo_begin:
  "HandleHTTPRequest_begin (demo_request ''ab12cd34.example.com'') (0xde, 0xad, 0xbe, 0xef)
     demo_connected = Awaiting ''deadbeef'' 1 demo_waiting"
  by (simp add: demo_waiting_def HandleHTTPRequest_begin_def demo_request_def demo_hosts
      getClient_def demo_connected_fields Let_def load_def chan_send_def make_chan_def
      generate_deadbeef)

lemma demo_waiting_fields:
  "clients demo_waiting = [''ab12cd34'' \<mapsto> 0]"
  "heap_Client demo_waiting = [\<lparr>conn = 0, subdomain = ''ab12cd34'', send = 0\<rparr>]"
  "heap_chan demo_waiting = [\<lparr>buf = [demo_frame], cap = 256, closed = False\<rparr>, make_chan 1]"
  "pendingRequests demo_waiting = [''deadbeef'' \<mapsto> 1]"
  by (simp_all add: demo_waiting_def HandleHTTPRequest_begin_def demo_request_def demo_hosts
      getClient_def demo_connected_fields Let_def load_def chan_send_def make_chan_def
      generate_deadbeef demo_frame_def flatten_def)

lemma demo_reply_eq:
  "demo_reply respBody =
     Message0\<lparr>Type := ''http_response'', ID := ''deadbeef'', Status := 200,
       Headers := Map.empty, Body := json_text respBody\<rparr>"
  by (simp add: demo_reply_def forwardRequest_def demo_client_def ReadJSON_of_def Message0_def
      demo_frame_def flatten_def DecodeRuneInString_def comp_def)

lemma demo_deliver:
  "handleHTTPResponse (demo_reply ''hi'') demo_waiting = Returned demo_delivered"
  by (simp add: demo_delivered_def demo_reply_eq handleHTTPResponse_def demo_waiting_fields
      load_def chan_send_def make_chan_def Message0_def)

lemma demo_delivered_fields:
  "clients demo_delivered = [''ab12cd34'' \<mapsto> 0]"
  "heap_Client demo_delivered = [\<lparr>conn = 0, subdomain = ''ab12cd34'', send = 0\<rparr>]"
  "heap_chan demo_delivered =
     [\<lparr>buf = [demo_frame], cap = 256, closed = False\<rparr>,
      \<lparr>buf = [demo_reply ''hi''], cap = 1, closed = False\<rparr>]"
  "pendingRequests demo_delivered = [''deadbeef'' \<mapsto> 1]"
  by (simp_all add: demo_delivered_def demo_reply_eq handleHTTPResponse_def demo_waiting_fields
      load_def chan_send_def make_chan_def Message0_def)

text \<open>
  While the writer takes no frame, the first 256 requests for the session each add a frame
  to its queue and leave registry, session and queue otherwise as they were.
\<close>

lemma flood_invariant:
  "n \<le> 256 \<Longrightarrow>
     clients (flood n demo_connected) = [''ab12cd34'' \<mapsto> 0] \<and>
     heap_Client (flood n demo_connected) = [\<lparr>conn = 0, subdomain = ''ab12cd34'', send = 0\<rparr>] \<and>
     (\<exists>q sinks. heap_chan (flood n demo_connected) = q # sinks \<and>
         length (buf q) = n \<and> cap q = 256 \<and> \<not> closed q)"
proof (induction n)
  case 0
  show ?case by (simp add: demo_connected_fields make_chan_def)
next
  case (Suc n)
  then have "n \<le> 256" by simp
  from Suc.IH [OF this] obtain q sinks where inv:
    "clients (flood n demo_connected) = [''ab12cd34'' \<mapsto> 0]"
    "heap_Client (flood n demo_connected) = [\<lparr>conn = 0, subdomain = ''ab12cd34'', send = 0\<rparr>]"
    "heap_chan (flood n demo_connected) = q # sinks"
    "length (buf q) = n" "cap q = 256" "\<not> closed q"
    by blast
  from Suc.prems have "n < 256" by simp
  with inv show ?case
    by (simp add: HandleHTTPRequest_begin_def demo_request_def demo_hosts getClient_def
        Let_def load_def chan_send_def)
qed

section \<open>Heap and registry lemmas\<close>

lemma load_append_old: "load h a = Some x \<Longrightarrow> load (h @ ys) a = Some x"
  by (auto simp: load_def nth_append split: if_splits)

lemma host_label_append:
  "CHR ''.'' \<notin> set label \<Longrightarrow> host_label (label @ CHR ''.'' # rest) = label"
  unfolding host_label_def by (induction label) auto

lemma unregister_live:
  assumes "load (heap_Client s) client = Some c"
    and "clients s (subdomain c) = Some client"
    and "load (heap_chan s) (send c) = Some q"
    and "\<not> closed q"
  shows "unregisterClient (subdomain c) s =
           Returned (s\<lparr>heap_chan := (heap_chan s)[send c := q\<lparr>closed := True\<rparr>],
                       clients := (clients s)(subdomain c := None)\<rparr>)"
  using assms by (simp add: unregisterClient_def)

section \<open>Rename of a session\<close>

text \<open>
  For every live session and every free label the rename returns with the session
  registered under the new label, its queue the same channel as before, and that channel
  closed.
\<close>

lemma rename_leaves_queue_closed:
  assumes "live s client"
    and "load (heap_Client s) client = Some c"
    and "clients s label = None"
    and "RequestedSubdomain msg = label"
  shows "\<exists>s' q. handleSubdomainRequest client msg werr s = Returned s' \<and>
           getClient s' label = Some client \<and>
           load (heap_Client s') client = Some (c\<lparr>subdomain := label\<rparr>) \<and>
           load (heap_chan s') (send c) = Some q \<and> closed q"
proof -
  from assms(1,2) obtain q where reg: "clients s (subdomain c) = Some client"
    and q: "load (heap_chan s) (send c) = Some q" "\<not> closed q"
    by (auto simp: live_def split: option.splits)
  have lt: "client < length (heap_Client s)" "send c < length (heap_chan s)"
    using assms(2) q(1) by (simp_all add: load_def split: if_splits)
  have un: "unregisterClient (subdomain c) s =
           Returned (s\<lparr>heap_chan := (heap_chan s)[send c := q\<lparr>closed := True\<rparr>],
                       clients := (clients s)(subdomain c := None)\<rparr>)"
    by (rule unregister_live [OF assms(2) reg q])
  show ?thesis
    using assms(2,3,4) lt
    by (simp add: handleSubdomainRequest_def isSubdomainAvailable_def un Let_def
        registerClient_def conn_write_def log_Printf_def getClient_def load_def)
qed

text \<open>
  C1. The claim: after a successful rename the registry maps the new label, and only it,
  to the session, the session keeps its outbound queue and the queue stays open for
  further \<open>http_request\<close> frames, and no lookup finds the session under neither label.
  On the code the first part holds and the rest does not. The sample session
  \<open>ab12cd34\<close> asks for \<open>myapp\<close>: the rename returns, the registry maps only
  \<open>myapp\<close> to the session and the session keeps the address of its queue, but
  \<open>unregisterClient\<close> has closed that queue. A public request for
  \<open>myapp.example.com\<close> then finds the session and panics in its send; the writer's
  next turn writes the close frame and closes the connection. In between the two registry
  calls of the rename, after \<open>unregisterClient\<close> has returned, the registry is empty.
\<close>

theorem rename_closes_queue:
  "handleSubdomainRequest 0 (subdomain_request ''myapp'') False demo_connected =
     Returned demo_renamed \<and>
   clients demo_renamed = [''myapp'' \<mapsto> 0] \<and>
   map send (heap_Client demo_renamed) = map send (heap_Client demo_connected) \<and>
   load (heap_chan demo_connected) 0 = Some \<lparr>buf = [], cap = 256, closed = False\<rparr> \<and>
   load (heap_chan demo_renamed) 0 = Some \<lparr>buf = [], cap = 256, closed = True\<rparr> \<and>
   HandleHTTPRequest_begin (demo_request ''myapp.example.com'') (0xde, 0xad, 0xbe, 0xef)
     demo_renamed =
     Aborted ''send on closed channel''
       (demo_renamed\<lparr>heap_chan := heap_chan demo_renamed @ [make_chan 1]\<rparr>) \<and>
   writePump_iter 0 False demo_renamed =
     Stopped (demo_renamed\<lparr>conn_writes := conn_writes demo_renamed @ [(0, WritePump, CloseFrame)],
                conn_closed := {0}\<rparr>) \<and>
   clients (state_of (unregisterClient ''ab12cd34'' demo_connected)) = Map.empty"
  by (simp add: demo_rename demo_renamed_fields demo_connected_fields load_def make_chan_def
      HandleHTTPRequest_begin_def demo_request_def demo_hosts getClient_def Let_def
      chan_send_def remove_pending_def generate_deadbeef writePump_iter_def conn_write_def
      conn_Close_def unregisterClient_def)

text \<open>
  The rename checks nothing but availability. For a live session and any string that
  is not registered (the empty string, a string that is no 8-digit hex label), the
  request returns, the registry maps the string to the session (\<open>getClient\<close> is the
  lookup of the public adapter, which a host made of the label, a dot and the domain
  reaches when the label has no dot), the session's label is the string, and the frame
  written back is \<open>subdomain_assigned\<close> with the string, a dot and the domain.
\<close>

lemma rename_accepts_any_free_label:
  assumes "live s client"
    and "load (heap_Client s) client = Some c"
    and "clients s label = None"
    and "RequestedSubdomain msg = label"
  shows "\<exists>s'. handleSubdomainRequest client msg werr s = Returned s' \<and>
              getClient s' label = Some client \<and>
              load (heap_Client s') client = Some (c\<lparr>subdomain := label\<rparr>) \<and>
              conn_writes s' = conn_writes s @
                [(conn c, ReadPump, JSONFrame (Message0\<lparr>Type := ''subdomain_assigned'',
                    Subdomain := label @ ''.'' @ domain s\<rparr>))] \<and>
              (CHR ''.'' \<notin> set label \<longrightarrow>
                 getClient s' (host_label (label @ ''.'' @ domain s)) = Some client)"
proof -
  from assms(1,2) obtain q where reg: "clients s (subdomain c) = Some client"
    and q: "load (heap_chan s) (send c) = Some q" "\<not> closed q"
    by (auto simp: live_def split: option.splits)
  have lt: "client < length (heap_Client s)"
    using assms(2) by (simp add: load_def split: if_splits)
  have un: "unregisterClient (subdomain c) s =
           Returned (s\<lparr>heap_chan := (heap_chan s)[send c := q\<lparr>closed := True\<rparr>],
                       clients := (clients s)(subdomain c := None)\<rparr>)"
    by (rule unregister_live [OF assms(2) reg q])
  show ?thesis
    using assms(2,3,4) lt
    by (simp add: handleSubdomainRequest_def isSubdomainAvailable_def un Let_def
        registerClient_def conn_write_def log_Printf_def getClient_def load_def assignMsg_def
        host_label_append)
qed

text \<open>The sample session asks for the empty label and gets it.\<close>

lemma rename_accepts_empty_label:
  "getClient (state_of (handleSubdomainRequest 0 (subdomain_request []) False demo_connected)) []
     = Some 0 \<and>
   getClient (state_of (handleSubdomainRequest 0 (subdomain_request []) False demo_connected))
     (host_label ''.example.com'') = Some 0 \<and>
   last (conn_writes (state_of (handleSubdomainRequest 0 (subdomain_request []) False
       demo_connected))) =
     (0, ReadPump, JSONFrame (Message0\<lparr>Type := ''subdomain_assigned'',
        Subdomain := ''.example.com''\<rparr>))"
  using rename_accepts_any_free_label [of demo_connected 0
      "\<lparr>conn = 0, subdomain = ''ab12cd34'', send = 0\<rparr>" "[]" "subdomain_request []" False]
    demo_connected_live
  by (auto simp add: demo_connected_fields load_def subdomain_request_def Message0_def)

text \<open>
  C9. The claim: for every string that is not registered, a \<open>subdomain_request\<close>
  carrying it succeeds, the string becomes the session's routing key and is echoed back.
  On the code no format is checked, and the first rename of a session does all of that
  for any string. But the rename closes the session's queue, and the next rename of the
  same session calls \<open>unregisterClient\<close> on the closed queue. The sample session,
  renamed to \<open>myapp\<close>, asks for the free label \<open>other\<close>: the reader panics in
  \<open>close\<close>, the state stays as it was, \<open>other\<close> is not registered, the session's
  label is still \<open>myapp\<close> and no frame is written.
\<close>

theorem second_rename_panics:
  "handleSubdomainRequest 0 (subdomain_request ''myapp'') False demo_connected =
     Returned demo_renamed \<and>
   isSubdomainAvailable demo_renamed ''other'' \<and>
   handleSubdomainRequest 0 (subdomain_request ''other'') False demo_renamed =
     Panicked ''close of closed channel'' demo_renamed \<and>
   getClient demo_renamed ''other'' = None \<and>
   map subdomain (heap_Client demo_renamed) = [''myapp''] \<and>
   conn_writes demo_renamed =
     [(0, Handshake, JSONFrame (assignMsg ''ab12cd34'' ''example.com'')),
      (0, ReadPump, JSONFrame (assignMsg ''myapp'' ''example.com''))]"
proof -
  have "handleSubdomainRequest 0 (subdomain_request ''other'') False demo_renamed =
          Panicked ''close of closed channel'' demo_renamed"
    by (simp add: handleSubdomainRequest_def demo_renamed_fields load_def
        isSubdomainAvailable_def subdomain_request_def Message0_def unregisterClient_def)
  then show ?thesis
    by (simp add: demo_rename demo_renamed_fields isSubdomainAvailable_def getClient_def)
qed

text \<open>
  C10. A session that asks for the label it is registered under is refused: the
  availability check finds the session's own entry, the reader writes an \<open>error\<close>
  frame saying the label is not available, and nothing else in the state changes, so the
  registry and the session's label stay as they were.
\<close>

theorem self_rename_refused:
  assumes "load (heap_Client s) client = Some c"
    and "clients s (subdomain c) = Some client"
    and "RequestedSubdomain msg = subdomain c"
  shows "handleSubdomainRequest client msg werr s =
           Returned (s\<lparr>conn_writes := conn_writes s @
             [(conn c, ReadPump, JSONFrame (Message0\<lparr>Type := ''error'',
                 Error := ''Subdomain '' @ [CHR 0x27] @ subdomain c @ [CHR 0x27] @
                          '' is not available''\<rparr>))]\<rparr>)"
  using assms
  by (simp add: handleSubdomainRequest_def isSubdomainAvailable_def conn_write_def errorMsg_def)

theorem self_rename_refused_witness:
  "handleSubdomainRequest 0 (subdomain_request ''ab12cd34'') False demo_connected =
     Returned (demo_connected\<lparr>conn_writes := conn_writes demo_connected @
        [(0, ReadPump, JSONFrame (Message0\<lparr>Type := ''error'',
             Error := ''Subdomain '' @ [CHR 0x27] @ ''ab12cd34'' @ [CHR 0x27] @
                      '' is not available''\<rparr>))]\<rparr>)"
  using self_rename_refused [of demo_connected 0 "\<lparr>conn = 0, subdomain = ''ab12cd34'', send = 0\<rparr>"
      "subdomain_request ''ab12cd34''" False]
  by (simp add: demo_connected_fields load_def subdomain_request_def Message0_def)

section \<open>End of a session\<close>

text \<open>
  A session that never renamed is removed by the deferred call: its label is the one
  the call was given.
\<close>

lemma cleanup_without_rename:
  "HandleWebSocket ''Bearer secret'' True (0xab, 0x12, 0xcd, 0x34) False [] False demo_server =
     Ended (Returned (demo_connected\<lparr>conn_closed := {0},
        heap_chan := [\<lparr>buf = [], cap = 256, closed = True\<rparr>], clients := Map.empty\<rparr>))"
  by (simp add: HandleWebSocket_def demo_open readPump_def demo_connected_fields load_def
      conn_Close_def HandleWebSocket_return_def unregisterClient_def make_chan_def)

text \<open>
  C2. The claim: when the reader loop of a session exits, the cleanup removes the session
  from the registry under the label it is registered at, also after a rename. On the code
  the deferred \<open>unregisterClient\<close> was given the label generated at connect. The
  sample session connects as \<open>ab12cd34\<close>, is renamed to \<open>myapp\<close>, and its read then
  fails: the handler returns, the connection is closed, and the registry still maps
  \<open>myapp\<close> to the session.
\<close>

theorem cleanup_misses_renamed_session:
  "HandleWebSocket ''Bearer secret'' True (0xab, 0x12, 0xcd, 0x34) False
     [(subdomain_request ''myapp'', False)] False demo_server =
     Ended (Returned (demo_renamed\<lparr>conn_closed := {0}\<rparr>)) \<and>
   getClient (demo_renamed\<lparr>conn_closed := {0}\<rparr>) ''myapp'' = Some 0"
proof -
  have "Type (subdomain_request ''myapp'') = ''subdomain_request''"
    by (simp add: subdomain_request_def)
  then have "dispatch 0 (subdomain_request ''myapp'') False demo_connected = Returned demo_renamed"
    by (simp add: dispatch_def demo_rename)
  then have "readPump 0 [(subdomain_request ''myapp'', False)] False demo_connected =
      Returned (demo_renamed\<lparr>conn_closed := {0}\<rparr>)"
    by (simp add: readPump_def demo_connected_fields load_def conn_Close_def
        demo_renamed_fields)
  then show ?thesis
    by (simp add: HandleWebSocket_def demo_open HandleWebSocket_return_def unregisterClient_def
        demo_renamed_fields getClient_def)
qed

section \<open>Writes to the transport\<close>

text \<open>
  C3. The claim: once the writer loop runs, every frame for the session's transport goes
  through the queue and is written by the writer; no other server code writes to the
  connection. On the code \<open>handleSubdomainRequest\<close> calls \<open>conn.WriteJSON\<close> itself, in
  the reader's goroutine. The sample session has an \<open>http_request\<close> frame in its queue,
  which the writer's next turn writes to connection 0; the reader, handling a request
  for a taken label, writes the \<open>error\<close> frame to connection 0 and leaves the queue as
  it is.
\<close>

theorem reader_writes_to_transport:
  "conn_writes (state_of (handleSubdomainRequest 0 (subdomain_request ''ab12cd34'') False
      demo_waiting)) =
     conn_writes demo_waiting @
       [(0, ReadPump, JSONFrame (Message0\<lparr>Type := ''error'',
           Error := ''Subdomain '' @ [CHR 0x27] @ ''ab12cd34'' @ [CHR 0x27] @
                    '' is not available''\<rparr>))] \<and>
   heap_chan (state_of (handleSubdomainRequest 0 (subdomain_request ''ab12cd34'') False
      demo_waiting)) = heap_chan demo_waiting \<and>
   writePump_iter 0 False demo_waiting =
     Next (demo_waiting\<lparr>heap_chan := [make_chan 256, make_chan 1],
             conn_writes := conn_writes demo_waiting @ [(0, WritePump, JSONFrame demo_frame)]\<rparr>)"
  by (simp add: handleSubdomainRequest_def demo_waiting_fields load_def isSubdomainAvailable_def
      subdomain_request_def Message0_def conn_write_def errorMsg_def writePump_iter_def
      make_chan_def Let_def)

section \<open>The public adapter\<close>

text \<open>The first step of the adapter always ends: it never waits for room in the queue.\<close>

lemma begin_is_not_NotReady: "HandleHTTPRequest_begin r rnd s \<noteq> NotReady s'"
  by (simp add: HandleHTTPRequest_begin_def Let_def split: option.splits sent.splits)

lemma begin_Awaiting:
  assumes "HandleHTTPRequest_begin r rnd s = Awaiting requestID responseChan s1"
  shows "requestID = generateSubdomain rnd"
    and "responseChan = length (heap_chan s)"
    and "pendingRequests s1 requestID = Some responseChan"
  using assms
  by (auto simp add: HandleHTTPRequest_begin_def Let_def load_def nth_append chan_send_def
      split: option.splits sent.splits if_splits)

lemma await_removes_entry:
  "HandleHTTPRequest_await requestID responseChan ev s = Responded resp s' \<or>
   HandleHTTPRequest_await requestID responseChan ev s = Aborted e s' \<Longrightarrow>
   pendingRequests s' requestID = None"
  by (auto simp: HandleHTTPRequest_await_def write_response_def remove_pending_def
      split: wakeup.splits option.splits list.splits if_splits)

text \<open>
  C4, as the claim states it: after a successful enqueue the adapter ends in one of three
  ways, and with a frame on its sink it copies the frame's status, headers and body. The
  sample adapter waits for \<open>deadbeef\<close>; the client answers with an \<open>http_response\<close>
  frame that has this id and no status. The frame is delivered to the sink, the adapter
  takes it, and \<open>WriteHeader\<close> panics on the status 0: the handler ends without a
  response, which is none of the three ways.
\<close>

theorem adapter_panics_on_status_0:
  "HandleHTTPRequest_begin (demo_request ''ab12cd34.example.com'') (0xde, 0xad, 0xbe, 0xef)
     demo_connected = Awaiting ''deadbeef'' 1 demo_waiting \<and>
   handleHTTPResponse demo_reply_no_status demo_waiting =
     Returned (demo_waiting\<lparr>heap_chan := (heap_chan demo_waiting)
        [1 := \<lparr>buf = [demo_reply_no_status], cap = 1, closed = False\<rparr>]\<rparr>) \<and>
   HandleHTTPRequest_await ''deadbeef'' 1 SinkReady
     (demo_waiting\<lparr>heap_chan := (heap_chan demo_waiting)
        [1 := \<lparr>buf = [demo_reply_no_status], cap = 1, closed = False\<rparr>]\<rparr>) =
     Aborted ''invalid WriteHeader code''
       (demo_waiting\<lparr>heap_chan := (heap_chan demo_waiting)[1 := make_chan 1],
          pendingRequests := Map.empty\<rparr>) \<and>
   responded (HandleHTTPRequest_await ''deadbeef'' 1 SinkReady
     (demo_waiting\<lparr>heap_chan := (heap_chan demo_waiting)
        [1 := \<lparr>buf = [demo_reply_no_status], cap = 1, closed = False\<rparr>]\<rparr>)) = None"
  by (simp add: demo_begin handleHTTPResponse_def demo_reply_no_status_def demo_waiting_fields
      load_def chan_send_def make_chan_def Message0_def HandleHTTPRequest_await_def
      write_response_def remove_pending_def)

text \<open>
  C4, amended: a request whose frame was enqueued has its table entry, and whichever case
  of the inner select fires, in any later state, the handler returns with the entry
  removed: when the sink holds a frame whose status is from 100 to 999, with that frame's
  status, headers and body as the response; when the timer fires, with status 504 and
  the text \<open>Client response timeout\<close>; when the caller's context is done, with status
  408 and the text \<open>Request cancelled\<close>.
\<close>

theorem adapter_completes:
  assumes "HandleHTTPRequest_begin r rnd s = Awaiting requestID responseChan s1"
    and "ev = SinkReady \<Longrightarrow>
           load (heap_chan s2) responseChan = Some q \<and> buf q = f # rest \<and>
           100 \<le> Status f \<and> Status f \<le> 999"
  shows "pendingRequests s1 requestID = Some responseChan \<and>
         (\<exists>s3. HandleHTTPRequest_await requestID responseChan ev s2 =
                  Responded
                    (case ev of
                       SinkReady \<Rightarrow> \<lparr>code = Status f, header = Headers f, written = Body f\<rparr>
                     | TimerFired \<Rightarrow>
                         \<lparr>code = 504,
                          header = [''Content-Type'' \<mapsto> ''text/plain; charset=utf-8'',
                                    ''X-Content-Type-Options'' \<mapsto> ''nosniff''],
                          written = ''Client response timeout'' @ [CHR 0x0A]\<rparr>
                     | ContextDone \<Rightarrow>
                         \<lparr>code = 408,
                          header = [''Content-Type'' \<mapsto> ''text/plain; charset=utf-8'',
                                    ''X-Content-Type-Options'' \<mapsto> ''nosniff''],
                          written = ''Request cancelled'' @ [CHR 0x0A]\<rparr>) s3 \<and>
               pendingRequests s3 requestID = None)"
proof (intro conjI)
  show "pendingRequests s1 requestID = Some responseChan"
    using assms(1) by (rule begin_Awaiting)
  show "\<exists>s3. HandleHTTPRequest_await requestID responseChan ev s2 =
                  Responded
                    (case ev of
                       SinkReady \<Rightarrow> \<lparr>code = Status f, header = Headers f, written = Body f\<rparr>
                     | TimerFired \<Rightarrow>
                         \<lparr>code = 504,
                          header = [''Content-Type'' \<mapsto> ''text/plain; charset=utf-8'',
                                    ''X-Content-Type-Options'' \<mapsto> ''nosniff''],
                          written = ''Client response timeout'' @ [CHR 0x0A]\<rparr>
                     | ContextDone \<Rightarrow>
                         \<lparr>code = 408,
                          header = [''Content-Type'' \<mapsto> ''text/plain; charset=utf-8'',
                                    ''X-Content-Type-Options'' \<mapsto> ''nosniff''],
                          written = ''Request cancelled'' @ [CHR 0x0A]\<rparr>) s3 \<and>
               pendingRequests s3 requestID = None"
  proof (cases ev)
    case SinkReady
    with assms(2) show ?thesis
      by (simp add: HandleHTTPRequest_await_def write_response_def copy_response_def
          remove_pending_def)
  next
    case TimerFired
    then show ?thesis
      by (simp add: HandleHTTPRequest_await_def remove_pending_def http_Error_def)
  next
    case ContextDone
    then show ?thesis
      by (simp add: HandleHTTPRequest_await_def remove_pending_def http_Error_def)
  qed
qed

text \<open>
  The sample request in each of the three ways: answered with 200 and the body \<open>hi\<close>,
  timed out, and cancelled by its caller.
\<close>

theorem adapter_completes_witness:
  "responded (HandleHTTPRequest_await ''deadbeef'' 1 SinkReady demo_delivered) =
     Some \<lparr>code = 200, header = Map.empty, written = ''hi''\<rparr> \<and>
   pendingRequests (adapter_state (HandleHTTPRequest_await ''deadbeef'' 1 SinkReady
     demo_delivered)) ''deadbeef'' = None \<and>
   responded (HandleHTTPRequest_await ''deadbeef'' 1 TimerFired demo_waiting) =
     Some \<lparr>code = 504,
            header = [''Content-Type'' \<mapsto> ''text/plain; charset=utf-8'',
                      ''X-Content-Type-Options'' \<mapsto> ''nosniff''],
            written = ''Client response timeout'' @ [CHR 0x0A]\<rparr> \<and>
   pendingRequests (adapter_state (HandleHTTPRequest_await ''deadbeef'' 1 TimerFired
     demo_waiting)) ''deadbeef'' = None \<and>
   responded (HandleHTTPRequest_await ''deadbeef'' 1 ContextDone demo_waiting) =
     Some \<lparr>code = 408,
            header = [''Content-Type'' \<mapsto> ''text/plain; charset=utf-8'',
                      ''X-Content-Type-Options'' \<mapsto> ''nosniff''],
            written = ''Request cancelled'' @ [CHR 0x0A]\<rparr> \<and>
   pendingRequests (adapter_state (HandleHTTPRequest_await ''deadbeef'' 1 ContextDone
     demo_waiting)) ''deadbeef'' = None"
proof -
  have ready: "load (heap_chan demo_delivered) 1 =
                 Some \<lparr>buf = [demo_reply ''hi''], cap = 1, closed = False\<rparr> \<and>
               buf \<lparr>buf = [demo_reply ''hi''], cap = 1, closed = False\<rparr> = demo_reply ''hi'' # [] \<and>
               100 \<le> Status (demo_reply ''hi'') \<and> Status (demo_reply ''hi'') \<le> 999"
    by (simp add: demo_delivered_fields load_def demo_reply_eq Message0_def)
  obtain a where a:
    "HandleHTTPRequest_await ''deadbeef'' 1 SinkReady demo_delivered =
       Responded \<lparr>code = Status (demo_reply ''hi''), header = Headers (demo_reply ''hi''),
                   written = Body (demo_reply ''hi'')\<rparr> a"
    "pendingRequests a ''deadbeef'' = None"
    using adapter_completes [OF demo_begin, of SinkReady demo_delivered
        "\<lparr>buf = [demo_reply ''hi''], cap = 1, closed = False\<rparr>" "demo_reply ''hi''" "[]"] ready
    by auto
  obtain b where b:
    "HandleHTTPRequest_await ''deadbeef'' 1 TimerFired demo_waiting =
       Responded \<lparr>code = 504,
            header = [''Content-Type'' \<mapsto> ''text/plain; charset=utf-8'',
                      ''X-Content-Type-Options'' \<mapsto> ''nosniff''],
            written = ''Client response timeout'' @ [CHR 0x0A]\<rparr> b"
    "pendingRequests b ''deadbeef'' = None"
    using adapter_completes [OF demo_begin, of TimerFired demo_waiting]
    by auto
  obtain c where c:
    "HandleHTTPRequest_await ''deadbeef'' 1 ContextDone demo_waiting =
       Responded \<lparr>code = 408,
            header = [''Content-Type'' \<mapsto> ''text/plain; charset=utf-8'',
                      ''X-Content-Type-Options'' \<mapsto> ''nosniff''],
            written = ''Request cancelled'' @ [CHR 0x0A]\<rparr> c"
    "pendingRequests c ''deadbeef'' = None"
    using adapter_completes [OF demo_begin, of ContextDone demo_waiting]
    by auto
  show ?thesis
    using a b c by (simp add: demo_reply_eq Message0_def DecodeRuneInString_def)
qed

text \<open>
  A request that reaches the enqueue step (its host has a dot, the label is registered,
  the body was read) and finds the session's queue of capacity 256 open and holding 256
  frames is answered 503 in that same step, and the state it leaves has the new sink
  allocated and no table entry under the request's id.
\<close>

lemma full_queue_answers_503:
  assumes "CHR ''.'' \<in> set (req_Host r)"
    and "getClient s (host_label (req_Host r)) = Some client"
    and "req_Body r = Some body"
    and "load (heap_Client s) client = Some c"
    and "load (heap_chan s) (send c) = Some q"
    and "\<not> closed q"
    and "cap q = 256"
    and "length (buf q) = 256"
  shows "HandleHTTPRequest_begin r rnd s =
           Responded
             \<lparr>code = 503,
              header = [''Content-Type'' \<mapsto> ''text/plain; charset=utf-8'',
                        ''X-Content-Type-Options'' \<mapsto> ''nosniff''],
              written = ''Tunnel is busy'' @ [CHR 0x0A]\<rparr>
             (s\<lparr>heap_chan := heap_chan s @ [make_chan 1],
                pendingRequests := (pendingRequests s)(generateSubdomain rnd := None)\<rparr>)"
  using assms load_append_old [OF assms(5), of "[make_chan 1]"]
  by (simp add: HandleHTTPRequest_begin_def Let_def chan_send_def remove_pending_def
      http_Error_def)

text \<open>The same with the queue closed: the send panics and no response is written.\<close>

lemma closed_queue_aborts:
  assumes "CHR ''.'' \<in> set (req_Host r)"
    and "getClient s (host_label (req_Host r)) = Some client"
    and "req_Body r = Some body"
    and "load (heap_Client s) client = Some c"
    and "load (heap_chan s) (send c) = Some q"
    and "closed q"
  shows "HandleHTTPRequest_begin r rnd s =
           Aborted ''send on closed channel''
             (s\<lparr>heap_chan := heap_chan s @ [make_chan 1],
                pendingRequests := (pendingRequests s)(generateSubdomain rnd := None)\<rparr>)"
  using assms load_append_old [OF assms(5), of "[make_chan 1]"]
  by (simp add: HandleHTTPRequest_begin_def Let_def chan_send_def remove_pending_def)

lemma demo_flooded_renamed_fields:
  "clients demo_flooded_renamed = [''myapp'' \<mapsto> 0] \<and>
   heap_Client demo_flooded_renamed = [\<lparr>conn = 0, subdomain = ''myapp'', send = 0\<rparr>] \<and>
   (\<exists>q sinks. heap_chan demo_flooded_renamed = q # sinks \<and>
       length (buf q) = 256 \<and> cap q = 256 \<and> closed q)"
proof -
  obtain q sinks where inv:
    "clients (flood 256 demo_connected) = [''ab12cd34'' \<mapsto> 0]"
    "heap_Client (flood 256 demo_connected) = [\<lparr>conn = 0, subdomain = ''ab12cd34'', send = 0\<rparr>]"
    "heap_chan (flood 256 demo_connected) = q # sinks"
    "length (buf q) = 256" "cap q = 256" "\<not> closed q"
    using flood_invariant [of 256] by blast
  then show ?thesis
    by (simp add: demo_flooded_renamed_def handleSubdomainRequest_def load_def
        isSubdomainAvailable_def subdomain_request_def Message0_def unregisterClient_def
        Let_def registerClient_def conn_write_def log_Printf_def fun_upd_twist)
qed

text \<open>
  C6. The claim: every public request that reaches the enqueue step and finds the queue
  holding 256 frames is answered 503 at once, and its table entry is removed. On the code
  that holds while the queue is open: the sample session with 256 frames that the writer
  has not taken answers request 257 with 503. The same session is then renamed to
  \<open>myapp\<close>, which closes its queue and leaves it registered; its queue still holds the
  256 frames. The next request, for \<open>myapp.example.com\<close>, reaches the enqueue step and
  panics in the send: the step does not wait and the table entry is removed, but no 503
  is written.
\<close>

theorem closed_full_queue_panics:
  "HandleHTTPRequest_begin (demo_request ''ab12cd34.example.com'') (0xde, 0xad, 0xbe, 0xef)
     (flood 256 demo_connected) =
     Responded
       \<lparr>code = 503,
        header = [''Content-Type'' \<mapsto> ''text/plain; charset=utf-8'',
                  ''X-Content-Type-Options'' \<mapsto> ''nosniff''],
        written = ''Tunnel is busy'' @ [CHR 0x0A]\<rparr>
       ((flood 256 demo_connected)
          \<lparr>heap_chan := heap_chan (flood 256 demo_connected) @ [make_chan 1],
           pendingRequests := (pendingRequests (flood 256 demo_connected))(''deadbeef'' := None)\<rparr>) \<and>
   handleSubdomainRequest 0 (subdomain_request ''myapp'') False (flood 256 demo_connected) =
     Returned demo_flooded_renamed \<and>
   getClient demo_flooded_renamed (host_label ''myapp.example.com'') = Some 0 \<and>
   map_option (\<lambda>q. (length (buf q), cap q, closed q)) (load (heap_chan demo_flooded_renamed) 0) =
     Some (256, 256, True) \<and>
   HandleHTTPRequest_begin (demo_request ''myapp.example.com'') (0xde, 0xad, 0xbe, 0xef)
     demo_flooded_renamed =
     Aborted ''send on closed channel''
       (demo_flooded_renamed
          \<lparr>heap_chan := heap_chan demo_flooded_renamed @ [make_chan 1],
           pendingRequests := (pendingRequests demo_flooded_renamed)(''deadbeef'' := None)\<rparr>) \<and>
   responded (HandleHTTPRequest_begin (demo_request ''myapp.example.com'')
     (0xde, 0xad, 0xbe, 0xef) demo_flooded_renamed) = None"
proof -
  obtain q sinks where inv:
    "clients (flood 256 demo_connected) = [''ab12cd34'' \<mapsto> 0]"
    "heap_Client (flood 256 demo_connected) = [\<lparr>conn = 0, subdomain = ''ab12cd34'', send = 0\<rparr>]"
    "heap_chan (flood 256 demo_connected) = q # sinks"
    "length (buf q) = 256" "cap q = 256" "\<not> closed q"
    using flood_invariant [of 256] by blast
  obtain q' sinks' where ren:
    "clients demo_flooded_renamed = [''myapp'' \<mapsto> 0]"
    "heap_Client demo_flooded_renamed = [\<lparr>conn = 0, subdomain = ''myapp'', send = 0\<rparr>]"
    "heap_chan demo_flooded_renamed = q' # sinks'"
    "length (buf q') = 256" "cap q' = 256" "closed q'"
    using demo_flooded_renamed_fields by blast
  have before: "HandleHTTPRequest_begin (demo_request ''ab12cd34.example.com'')
      (0xde, 0xad, 0xbe, 0xef) (flood 256 demo_connected) =
     Responded
       \<lparr>code = 503,
        header = [''Content-Type'' \<mapsto> ''text/plain; charset=utf-8'',
                  ''X-Content-Type-Options'' \<mapsto> ''nosniff''],
        written = ''Tunnel is busy'' @ [CHR 0x0A]\<rparr>
       ((flood 256 demo_connected)
          \<lparr>heap_chan := heap_chan (flood 256 demo_connected) @ [make_chan 1],
           pendingRequests := (pendingRequests (flood 256 demo_connected))(''deadbeef'' := None)\<rparr>)"
    using full_queue_answers_503 [of "demo_request ''ab12cd34.example.com''"
        "flood 256 demo_connected" 0 "[]" "\<lparr>conn = 0, subdomain = ''ab12cd34'', send = 0\<rparr>" q
        "(0xde, 0xad, 0xbe, 0xef)"] inv
    by (simp add: demo_request_def demo_hosts getClient_def load_def generate_deadbeef)
  have rename: "handleSubdomainRequest 0 (subdomain_request ''myapp'') False
      (flood 256 demo_connected) = Returned demo_flooded_renamed"
    using inv
    by (simp add: demo_flooded_renamed_def handleSubdomainRequest_def load_def
        isSubdomainAvailable_def subdomain_request_def Message0_def unregisterClient_def)
  have after: "HandleHTTPRequest_begin (demo_request ''myapp.example.com'')
      (0xde, 0xad, 0xbe, 0xef) demo_flooded_renamed =
     Aborted ''send on closed channel''
       (demo_flooded_renamed
          \<lparr>heap_chan := heap_chan demo_flooded_renamed @ [make_chan 1],
           pendingRequests := (pendingRequests demo_flooded_renamed)(''deadbeef'' := None)\<rparr>)"
    using closed_queue_aborts [of "demo_request ''myapp.example.com''" demo_flooded_renamed 0
        "[]" "\<lparr>conn = 0, subdomain = ''myapp'', send = 0\<rparr>" q' "(0xde, 0xad, 0xbe, 0xef)"] ren
    by (simp add: demo_request_def demo_hosts getClient_def load_def generate_deadbeef)
  show ?thesis
    using ren by (simp add: before rename after demo_hosts getClient_def load_def)
qed

section \<open>Delivery of responses\<close>

text \<open>
  C5, as the claim states it: delivery of an \<open>http_response\<close> frame never blocks the
  reader. The sample adapter waits for \<open>deadbeef\<close>; the client sends its response twice.
  The first frame goes into the sink. At the second the sink is still registered and
  holds the first frame, and the send blocks the reader.
\<close>

theorem delivery_blocks_on_full_sink:
  "pendingRequests (state_of (handleHTTPResponse (demo_reply ''hi'') demo_waiting))
     (ID (demo_reply ''hi'')) = Some 1 \<and>
   handleHTTPResponse (demo_reply ''hi'')
     (state_of (handleHTTPResponse (demo_reply ''hi'') demo_waiting)) =
   Blocked (state_of (handleHTTPResponse (demo_reply ''hi'') demo_waiting))"
  by (simp add: demo_reply_eq handleHTTPResponse_def demo_waiting_fields load_def chan_send_def
      make_chan_def Message0_def)

text \<open>
  C5, amended: a frame whose id has no sink is dropped with a log entry and the reader
  goes on; a frame whose id has a sink that is empty, as the adapter created it, is put
  into the sink, which then holds this one frame, and the reader goes on.
\<close>

theorem delivery_to_empty_sink:
  "(pendingRequests s (ID msg) = None \<longrightarrow>
      handleHTTPResponse msg s =
        Returned (s\<lparr>logs := logs s @ [(''No pending request for ID %s'', [S (ID msg)])]\<rparr>)) \<and>
   (pendingRequests s (ID msg) = Some ch \<and> load (heap_chan s) ch = Some (make_chan 1) \<longrightarrow>
      handleHTTPResponse msg s =
        Returned (s\<lparr>heap_chan := (heap_chan s)[ch := \<lparr>buf = [msg], cap = 1, closed = False\<rparr>]\<rparr>))"
  by (simp add: handleHTTPResponse_def log_Printf_def chan_send_def make_chan_def)

theorem delivery_to_empty_sink_witness:
  "handleHTTPResponse (demo_reply ''hi'') demo_connected =
     Returned (demo_connected\<lparr>logs := logs demo_connected @
        [(''No pending request for ID %s'', [S ''deadbeef''])]\<rparr>) \<and>
   handleHTTPResponse (demo_reply ''hi'') demo_waiting =
     Returned (demo_waiting\<lparr>heap_chan := (heap_chan demo_waiting)
        [1 := \<lparr>buf = [demo_reply ''hi''], cap = 1, closed = False\<rparr>]\<rparr>)"
  using delivery_to_empty_sink [of demo_connected "demo_reply ''hi''" 1]
    delivery_to_empty_sink [of demo_waiting "demo_reply ''hi''" 1]
  by (simp add: demo_reply_eq demo_connected_fields demo_waiting_fields load_def Message0_def)

section \<open>The local forwarder\<close>

text \<open>
  Whichever stage of the local exchange fails (building the request, doing it, reading
  the response body), the forwarder gives the connection exactly one more frame: an
  \<open>http_response\<close> with the id of the request frame, status 500, the single header
  \<open>Content-Type: application/json\<close>, and as body the stage's prefix and the error
  message put between the fixed opening and closing text.
\<close>

lemma local_failure_sends_500:
  "sent (forwardRequest msg (NewRequestError e) werr c) =
     sent c @ [Message0\<lparr>Type := ''http_response'', ID := ID msg, Status := 500,
                 Headers := [''Content-Type'' \<mapsto> ''application/json''],
                 Body := error_body (''Failed to create request: '' @ e)\<rparr>] \<and>
   sent (forwardRequest msg (DoError e) werr c) =
     sent c @ [Message0\<lparr>Type := ''http_response'', ID := ID msg, Status := 500,
                 Headers := [''Content-Type'' \<mapsto> ''application/json''],
                 Body := error_body (''Request failed: '' @ e)\<rparr>] \<and>
   sent (forwardRequest msg (ReadAllError st hdr e) werr c) =
     sent c @ [Message0\<lparr>Type := ''http_response'', ID := ID msg, Status := 500,
                 Headers := [''Content-Type'' \<mapsto> ''application/json''],
                 Body := error_body (''Failed to read response: '' @ e)\<rparr>]"
  by (simp add: forwardRequest_def sendErrorResponse_def Let_def)

text \<open>
  A message without quote, backslash and control character makes the body the JSON
  object with the one member \<open>error\<close>.
\<close>

lemma json_string_end_plain:
  "\<forall>c \<in> set m. c \<noteq> CHR 0x22 \<and> c \<noteq> CHR 0x5C \<and> \<not> (of_char c :: nat) < 0x20 \<Longrightarrow>
   json_string_end (m @ CHR 0x22 # rest) = Some rest"
  by (induction m) auto

lemma plain_message_gives_json:
  assumes "\<forall>c \<in> set m. c \<noteq> CHR 0x22 \<and> c \<noteq> CHR 0x5C \<and> \<not> (of_char c :: nat) < 0x20"
  shows "json_error_object (error_body m)"
  using json_string_end_plain [OF assms, of "''}''"]
  by (simp add: json_error_object_def error_body_def error_prefix_def)

text \<open>
  C7. The claim: on any failure of the local forwarding the client sends exactly one
  \<open>http_response\<close> frame with the request's id, status 500, the header
  \<open>Content-Type: application/json\<close> and a JSON body containing the error message.
  On the code the frame, its id, status and header are so, but the message is put between
  the quotes as it is. Nothing listens on the sample client's local port, so
  \<open>client.Do\<close> fails with a message that quotes the URL: the string that starts after
  the member name ends at the quote before the URL, the text of the URL follows it where
  JSON allows a comma or the closing brace, and the body is not the JSON object.
\<close>

theorem error_body_not_json:
  "sent (forwardRequest demo_frame (DoError connection_refused) False demo_client) =
     [Message0\<lparr>Type := ''http_response'', ID := ''deadbeef'', Status := 500,
        Headers := [''Content-Type'' \<mapsto> ''application/json''],
        Body := ''{'' @ [CHR 0x22] @ ''error'' @ [CHR 0x22] @ '': '' @ [CHR 0x22] @
                ''Request failed: Get '' @ [CHR 0x22] @ ''http://localhost:3000/'' @
                [CHR 0x22] @ '': dial tcp 127.0.0.1:3000: connect: connection refused'' @
                [CHR 0x22] @ ''}''\<rparr>] \<and>
   json_string_end (drop (length error_prefix)
      (Body (last (sent (forwardRequest demo_frame (DoError connection_refused) False
         demo_client))))) =
     Some (''http://localhost:3000/'' @ [CHR 0x22] @
           '': dial tcp 127.0.0.1:3000: connect: connection refused'' @ [CHR 0x22] @ ''}'') \<and>
   \<not> json_error_object
      (Body (last (sent (forwardRequest demo_frame (DoError connection_refused) False
         demo_client))))"
  by (simp add: forwardRequest_def sendErrorResponse_def Let_def demo_client_def
      demo_frame_def error_body_def connection_refused_def json_error_object_def
      error_prefix_def)

section \<open>Bodies through the tunnel\<close>

lemma json_text_valid: "valid_utf8 s \<Longrightarrow> json_text s = s"
proof (induction s rule: json_text.induct)
  case 1
  show ?case by simp
next
  case (2 b s)
  then show ?case
    by (auto split: option.splits)
qed

lemma ascii_valid: "\<forall>c \<in> set s. (of_char c :: nat) < 0x80 \<Longrightarrow> valid_utf8 s"
  by (induction s) (auto simp: DecodeRuneInString_def)

lemma hexdigit_ascii: "(of_char (hexdigit n) :: nat) < 0x80"
proof -
  have "hexdigit n \<in> set ''0123456789abcdef''"
    unfolding hexdigit_def by (rule nth_mem) simp
  then show ?thesis by auto
qed

lemma generateSubdomain_valid: "valid_utf8 (generateSubdomain rnd)"
  by (rule ascii_valid)
    (auto simp: generateSubdomain_def hex_byte_def hexdigit_ascii split: prod.splits)

lemma json_text_generateSubdomain: "json_text (generateSubdomain rnd) = generateSubdomain rnd"
  by (simp add: json_text_valid generateSubdomain_valid)

text \<open>
  C8, as the claim states it: the body the adapter writes equals the body the forwarder
  read, for any bytes. The local server of the sample client answers with the one byte
  FF; the adapter writes the three bytes EF BF BD.
\<close>

theorem tunnel_corrupts_non_utf8_body:
  "map_option written
     (responded (HandleHTTPRequest_await ''deadbeef'' 1 SinkReady
        (state_of (handleHTTPResponse (demo_reply [CHR 0xFF]) demo_waiting)))) =
   Some [CHR 0xEF, CHR 0xBF, CHR 0xBD] \<and>
   [CHR 0xEF, CHR 0xBF, CHR 0xBD] \<noteq> [CHR 0xFF]"
  by (simp add: demo_reply_eq handleHTTPResponse_def demo_waiting_fields load_def chan_send_def
      make_chan_def Message0_def HandleHTTPRequest_await_def write_response_def
      copy_response_def DecodeRuneInString_def lead_def)

text \<open>
  C8, amended: for a body that is well-formed UTF-8, returned with a status from 100 to
  999. The adapter has enqueued its request and waits; the client answers a frame with
  the request's id from a local response with that body; in a state where the adapter's
  entry and empty sink are in place, the server's reader delivers the frame it reads and
  the adapter, woken by the sink, writes the local status and exactly the bytes of the
  local body.
\<close>

theorem tunnel_preserves_utf8_body:
  assumes "HandleHTTPRequest_begin r rnd s = Awaiting requestID responseChan s1"
    and "pendingRequests s2 requestID = Some responseChan"
    and "load (heap_chan s2) responseChan = Some (make_chan 1)"
    and "ID msg = requestID"
    and "valid_utf8 respBody"
    and "100 \<le> st" and "st \<le> 999"
  shows "\<exists>s3 resp s4.
           handleHTTPResponse
             (ReadJSON_of (last (sent (forwardRequest msg (Replied st hdr respBody) werr c)))) s2 =
             Returned s3 \<and>
           HandleHTTPRequest_await requestID responseChan SinkReady s3 = Responded resp s4 \<and>
           written resp = respBody \<and> code resp = st"
proof -
  have rid: "requestID = generateSubdomain rnd"
    using assms(1) by (rule begin_Awaiting)
  have id: "ID (ReadJSON_of (last (sent (forwardRequest msg (Replied st hdr respBody) werr c)))) =
              requestID"
    using assms(4) by (simp add: forwardRequest_def Let_def ReadJSON_of_def rid
        json_text_generateSubdomain)
  have body: "Body (ReadJSON_of (last (sent (forwardRequest msg (Replied st hdr respBody) werr c)))) =
              respBody"
    using assms(5) by (simp add: forwardRequest_def Let_def ReadJSON_of_def json_text_valid)
  have status: "Status (ReadJSON_of (last (sent (forwardRequest msg (Replied st hdr respBody) werr c)))) =
              st"
    by (simp add: forwardRequest_def Let_def ReadJSON_of_def)
  have lt: "responseChan < length (heap_chan s2)"
    using assms(3) by (simp add: load_def split: if_splits)
  show ?thesis
    using assms(2,3,6,7) lt
    by (simp add: handleHTTPResponse_def id chan_send_def make_chan_def
        HandleHTTPRequest_await_def write_response_def load_def copy_response_def body status)
qed

theorem tunnel_preserves_utf8_body_witness:
  "map_option written
     (responded (HandleHTTPRequest_await ''deadbeef'' 1 SinkReady
        (state_of (handleHTTPResponse (demo_reply ''hi'') demo_waiting)))) = Some ''hi''"
proof -
  have "\<exists>s3 resp s4.
          handleHTTPResponse (demo_reply ''hi'') demo_waiting = Returned s3 \<and>
          HandleHTTPRequest_await ''deadbeef'' 1 SinkReady s3 = Responded resp s4 \<and>
          written resp = ''hi'' \<and> code resp = 200"
    unfolding demo_reply_def
    by (rule tunnel_preserves_utf8_body [OF demo_begin])
      (simp_all add: demo_waiting_fields load_def ReadJSON_of_def Message0_def demo_frame_def
        DecodeRuneInString_def)
  then show ?thesis by auto
qed

end
